theory Spec2Isabelle
  imports Main
begin

section \<open>JavaScript values used by the client\<close>

text \<open>
  A JavaScript string is a sequence of UTF-16 code units. The model is \<open>string\<close>
  (a list of \<open>char\<close>), one \<open>char\<close> for one code unit below 256, so \<open>length\<close> is
  the \<open>.length\<close> of such a string and \<open>=\<close> is \<open>===\<close>.
\<close>

definition toLowerChar :: "char \<Rightarrow> char" where
  \<comment> \<open>\<open>String.prototype.toLowerCase\<close> on one code unit below 256: A-Z and the
      capital letters of Latin-1 (0xC0-0xDE without the multiplication sign 0xD7).\<close>
  "toLowerChar c =
     (let n = (of_char c :: nat)
      in if (65 \<le> n \<and> n \<le> 90) \<or> (192 \<le> n \<and> n \<le> 222 \<and> n \<noteq> 215)
         then char_of (n + 32) else c)"

definition toLowerCase :: "string \<Rightarrow> string" where
  "toLowerCase s = map toLowerChar s"

definition is_capital :: "char \<Rightarrow> bool" where
  \<comment> \<open>one of the letters A-Z\<close>
  "is_capital c = (65 \<le> (of_char c :: nat) \<and> (of_char c :: nat) \<le> 90)"

definition isWhiteSpace :: "char \<Rightarrow> bool" where
  \<comment> \<open>the white space and line terminators that \<open>trim\<close> strips, below 256\<close>
  "isWhiteSpace c = ((of_char c :: nat) \<in> {9, 10, 11, 12, 13, 32, 160})"

definition trim :: "string \<Rightarrow> string" where
  "trim s = rev (dropWhile isWhiteSpace (rev (dropWhile isWhiteSpace s)))"

fun join :: "string \<Rightarrow> string list \<Rightarrow> string" where
  \<comment> \<open>\<open>Array.prototype.join\<close> on an array of strings\<close>
  "join sep [] = []"
| "join sep [x] = x"
| "join sep (x # y # ys) = x @ sep @ join sep (y # ys)"

fun indexOf_from :: "'a list \<Rightarrow> 'a \<Rightarrow> int \<Rightarrow> int" where
  "indexOf_from [] x i = - 1"
| "indexOf_from (y # ys) x i = (if y = x then i else indexOf_from ys x (i + 1))"

definition indexOf :: "'a list \<Rightarrow> 'a \<Rightarrow> int" where
  \<comment> \<open>\<open>Array.prototype.indexOf\<close>: the first index holding the value, or -1\<close>
  "indexOf xs x = indexOf_from xs x 0"

definition splice :: "'a list \<Rightarrow> int \<Rightarrow> nat \<Rightarrow> 'a list" where
  \<comment> \<open>\<open>xs.splice(start, deleteCount)\<close>, the array that is left: a negative start
      counts from the end, a start beyond the end is the end.\<close>
  "splice xs start deleteCount =
     (let len = int (length xs);
          s = (if start < 0 then max (len + start) 0 else min start len);
          k = nat s
      in take k xs @ drop (k + deleteCount) xs)"

text \<open>
  The browser state the client code touches: \<open>localStorage\<close>, the address of the
  window, and the navigations scheduled by \<open>setTimeout\<close>.
\<close>

record browser =
  localStorage :: "string \<rightharpoonup> string"
  location_href :: string
  scheduled :: "string list"

definition removeItem :: "string \<Rightarrow> browser \<Rightarrow> browser" where
  "removeItem k b = b\<lparr>localStorage := (localStorage b)(k := None)\<rparr>"

definition setItem :: "string \<Rightarrow> string \<Rightarrow> browser \<Rightarrow> browser" where
  "setItem k v b = b\<lparr>localStorage := (localStorage b)(k \<mapsto> v)\<rparr>"

text \<open>
  What an \<open>await\<close> of one of the calls of \<open>api.js\<close> gives a component: the body
  of the response (\<open>None\<close> for a \<open>null\<close> body, on which reading a property
  throws a \<open>TypeError\<close>), or an axios error with the message
  \<open>err.response?.data?.message\<close>, if any. The interceptors of \<open>api.js\<close> have
  run when the call returns; what they do to the browser is described with \<open>api.js\<close>.
\<close>

datatype 'a outcome = Resolved "'a option" | Rejected "string option"

section \<open>RegisterPage.jsx\<close>

record form_data =
  name :: string
  email :: string
  password :: string
  confirmPassword :: string
  preferred_genres :: "string list"

record register_page =
  formData :: form_data
  loading :: bool
  error :: string

definition initial_formData :: form_data where
  "initial_formData =
     \<lparr>name = [], email = [], password = [], confirmPassword = [], preferred_genres = []\<rparr>"

definition handleGenreToggle :: "string \<Rightarrow> register_page \<Rightarrow> register_page" where
  "handleGenreToggle genre st =
     (let currentGenres = preferred_genres (formData st);
          index = indexOf currentGenres genre;
          currentGenres' =
            (if index > - 1 then splice currentGenres index 1 else currentGenres @ [genre])
      in st\<lparr>formData := (formData st)\<lparr>preferred_genres := currentGenres'\<rparr>\<rparr>)"

text \<open>The body of the request \<open>authAPI.register\<close> posts to \<open>/auth/register\<close>.\<close>

record register_request =
  req_name :: string
  req_email :: string
  req_password :: string
  req_preferred_genres :: string

text \<open>
  The body of the response to \<open>authAPI.register\<close>: \<open>access_token\<close> is \<open>None\<close>
  when the property is missing, and \<open>user_json\<close> is \<open>JSON.stringify(response.user)\<close>.
\<close>

record register_response =
  success :: bool
  access_token :: "string option"
  user_json :: string

definition register_failure :: "string option \<Rightarrow> string" where
  \<comment> \<open>\<open>err.response?.data?.message || 'Registration failed. Please try again.'\<close>\<close>
  "register_failure m =
     (case m of
        None \<Rightarrow> ''Registration failed. Please try again.''
      | Some msg \<Rightarrow> if msg = [] then ''Registration failed. Please try again.'' else msg)"

definition after_register :: "register_response outcome \<Rightarrow> register_page \<Rightarrow> browser \<Rightarrow> register_page \<times> browser" where
  \<comment> \<open>the \<open>try\<close>/\<open>catch\<close>/\<open>finally\<close> around the call, from the point where the
      call has returned; a \<open>TypeError\<close> (a \<open>null\<close> body, a missing token) is caught
      like an axios error without a response\<close>
  "after_register outcome st b =
     (case outcome of
        Rejected m \<Rightarrow> (st\<lparr>error := register_failure m, loading := False\<rparr>, b)
      | Resolved None \<Rightarrow> (st\<lparr>error := register_failure None, loading := False\<rparr>, b)
      | Resolved (Some response) \<Rightarrow>
          if success response then
            (case access_token response of
               None \<Rightarrow> (st\<lparr>error := register_failure None, loading := False\<rparr>, b)
             | Some token \<Rightarrow>
                 (let cleanToken = trim token;
                      b1 = setItem ''access_token'' cleanToken b;
                      b2 = setItem ''user'' (user_json response) b1
                  in (st\<lparr>loading := False\<rparr>, b2\<lparr>scheduled := scheduled b2 @ [''/app'']\<rparr>)))
          else (st\<lparr>loading := False\<rparr>, b))"

definition handleSubmit ::
  "register_response outcome \<Rightarrow> register_page \<Rightarrow> browser \<Rightarrow> register_page \<times> browser \<times> register_request list" where
  \<comment> \<open>the third component lists the requests sent to the backend\<close>
  "handleSubmit outcome st0 b =
     (let st = st0\<lparr>error := []\<rparr>
      in if password (formData st) \<noteq> confirmPassword (formData st)
         then (st\<lparr>error := ''Passwords do not match''\<rparr>, b, [])
         else if length (password (formData st)) < 8
         then (st\<lparr>error := ''Password must be at least 8 characters long''\<rparr>, b, [])
         else if length (preferred_genres (formData st)) = 0
         then (st\<lparr>error := ''Please select at least one music genre''\<rparr>, b, [])
         else
           (let st1 = st\<lparr>loading := True\<rparr>;
                request = \<lparr>req_name = name (formData st),
                           req_email = email (formData st),
                           req_password = password (formData st),
                           req_preferred_genres = join '', '' (preferred_genres (formData st))\<rparr>;
                (st2, b2) = after_register outcome st1 b
            in (st2, b2, [request])))"

section \<open>api.js: the shared axios instance\<close>

text \<open>
  What the transport hands to the instance \<open>api\<close>: a response with a status, or no
  response at all (a network error or a timeout). With the default
  \<open>validateStatus\<close> of axios a status from 200 to 299 fulfils the promise and
  every other status rejects it with an error that carries the response.
\<close>

record http_response =
  status :: int
  data :: string

record axios_error =
  err_response :: "http_response option"

datatype transport = Response http_response | NoResponse

datatype settled = Fulfilled http_response | RejectedWith axios_error

definition response_onFulfilled :: "http_response \<Rightarrow> browser \<Rightarrow> settled \<times> browser" where
  "response_onFulfilled response b = (Fulfilled response, b)"

definition response_onRejected :: "axios_error \<Rightarrow> browser \<Rightarrow> settled \<times> browser" where
  \<comment> \<open>\<open>error.response?.status === 401\<close> is false when there is no response\<close>
  "response_onRejected err b =
     (let b' =
        (if (case err_response err of None \<Rightarrow> False | Some r \<Rightarrow> status r = 401)
         then (removeItem ''user'' (removeItem ''access_token'' b))\<lparr>location_href := ''/login''\<rparr>
         else b)
      in (RejectedWith err, b'))"

definition api_receive :: "transport \<Rightarrow> browser \<Rightarrow> settled \<times> browser" where
  "api_receive t b =
     (case t of
        NoResponse \<Rightarrow> response_onRejected \<lparr>err_response = None\<rparr> b
      | Response r \<Rightarrow>
          if 200 \<le> status r \<and> status r < 300 then response_onFulfilled r b
          else response_onRejected \<lparr>err_response = Some r\<rparr> b)"

section \<open>MainApp.jsx\<close>

text \<open>
  Reading a property of an object literal, \<open>obj[key]\<close>: an own property, else a
  property inherited from \<open>Object.prototype\<close> (a function or an object, all
  truthy), else \<open>undefined\<close>. The object literal is the list of its properties.
\<close>

datatype 'a property = Value 'a | Inherited string | Undefined

definition object_prototype_names :: "string list" where
  "object_prototype_names =
     [''constructor'', ''__defineGetter__'', ''__defineSetter__'', ''hasOwnProperty'',
      ''__lookupGetter__'', ''__lookupSetter__'', ''isPrototypeOf'', ''propertyIsEnumerable'',
      ''toString'', ''valueOf'', ''__proto__'', ''toLocaleString'']"

definition object_get :: "(string \<times> 'a) list \<Rightarrow> string \<Rightarrow> 'a property" where
  "object_get obj key =
     (case map_of obj key of
        Some v \<Rightarrow> Value v
      | None \<Rightarrow> if key \<in> set object_prototype_names then Inherited key else Undefined)"

text \<open>The emoji of \<open>emotionEmojis\<close> are given by their Unicode code points.\<close>

definition emotionEmojis :: "(string \<times> nat) list" where
  "emotionEmojis =
     [(''happy'', 0x1F60A), (''sad'', 0x1F622), (''angry'', 0x1F620), (''neutral'', 0x1F610),
      (''surprised'', 0x1F632), (''fearful'', 0x1F630), (''disgusted'', 0x1F922),
      (''fear'', 0x1F630), (''disgust'', 0x1F922), (''surprise'', 0x1F632)]"

record track =
  title :: string
  artist :: string
  album :: string
  track_id :: "string option"
  preview_url :: "string option"

definition dummy :: "string \<Rightarrow> string \<Rightarrow> string \<Rightarrow> track" where
  \<comment> \<open>an entry \<open>{ title, artist, album }\<close> of the table\<close>
  "dummy t a al = \<lparr>title = t, artist = a, album = al, track_id = None, preview_url = None\<rparr>"

text \<open>The four arrays of the object literal \<open>dummyData\<close>, in the order of the source.\<close>

definition happy_tracks :: "track list" where
  "happy_tracks =
     [dummy ''Happy'' ''Pharrell Williams'' ''G I R L'',
      dummy ''Good 4 U'' ''Olivia Rodrigo'' ''SOUR'',
      dummy ''Uptown Funk'' ''Bruno Mars'' ''24K Magic'',
      dummy ''Shake It Off'' ''Taylor Swift'' ''1989'',
      dummy ''Walking on Sunshine'' ''Katrina & The Waves'' ''Walking on Sunshine'',
      dummy (''Don'' @ [CHR 0x27] @ ''t Stop Me Now'') ''Queen'' ''Jazz'']"

definition sad_tracks :: "track list" where
  "sad_tracks =
     [dummy ''Someone Like You'' ''Adele'' ''21'',
      dummy ''Hurt'' ''Johnny Cash'' ''American IV'',
      dummy ''The Sound of Silence'' ''Simon & Garfunkel'' ''Sounds of Silence'',
      dummy ''Mad World'' ''Gary Jules'' ''Trading Snakeoil for Wolftickets'',
      dummy ''Tears in Heaven'' ''Eric Clapton'' ''Unplugged'',
      dummy ''Fix You'' ''Coldplay'' ''X&Y'']"

definition angry_tracks :: "track list" where
  "angry_tracks =
     [dummy ''In the End'' ''Linkin Park'' ''Hybrid Theory'',
      dummy ''Break Stuff'' ''Limp Bizkit'' ''Significant Other'',
      dummy ''Killing in the Name'' ''Rage Against the Machine'' ''Rage Against the Machine'',
      dummy ''Bodies'' ''Drowning Pool'' ''Sinner'',
      dummy ''Chop Suey!'' ''System of a Down'' ''Toxicity'',
      dummy ''Down with the Sickness'' ''Disturbed'' ''The Sickness'']"

definition neutral_tracks :: "track list" where
  "neutral_tracks =
     [dummy ''Weightless'' ''Marconi Union'' ''Weightless'',
      dummy ''Clair de Lune'' ''Claude Debussy'' ''Suite Bergamasque'',
      dummy ''River Flows in You'' ''Yiruma'' ''First Love'',
      dummy ''Porcelain'' ''Moby'' ''Play'',
      dummy ''Breathe'' (''T'' @ [CHR 0xE9] @ ''l'' @ [CHR 0xE9] @ ''popmusik'') ''Genetic World'',
      dummy ''Aqueous Transmission'' ''Incubus'' ''Morning View'']"

definition dummyData :: "(string \<times> track list) list" where
  "dummyData =
     [(''happy'', happy_tracks), (''sad'', sad_tracks), (''angry'', angry_tracks),
      (''neutral'', neutral_tracks)]"

definition getDummyRecommendations :: "string \<Rightarrow> track list property" where
  \<comment> \<open>\<open>dummyData[emotion.toLowerCase()] || dummyData.neutral\<close>: an array and an
      inherited property are truthy, \<open>undefined\<close> is not\<close>
  "getDummyRecommendations emotion =
     (case object_get dummyData (toLowerCase emotion) of
        Undefined \<Rightarrow> object_get dummyData ''neutral''
      | v \<Rightarrow> v)"

text \<open>
  \<open>musicAPI.getRecommendations\<close> of \<open>api.js\<close> builds the request; the backend and
  the catalog behind it are a function from the request to what the call gives.
  In the body, \<open>tracks\<close> is \<open>None\<close> when the property is missing or \<open>null\<close>, and
  an array otherwise; an array is truthy also when it is empty.
\<close>

record recommendations_request =
  url :: string
  param_language :: string
  param_limit :: nat

record recommendations_response =
  rec_success :: bool
  tracks :: "track list option"

definition getRecommendations :: "string \<Rightarrow> string \<Rightarrow> nat \<Rightarrow> recommendations_request" where
  "getRecommendations emotion language limit =
     \<lparr>url = ''/music/recommendations/'' @ emotion, param_language = language, param_limit = limit\<rparr>"

record main_app =
  recommendations :: "track list property"
  language :: string
  loadingMusic :: bool

definition setRecommendations :: "track list property \<Rightarrow> main_app \<Rightarrow> main_app" where
  \<comment> \<open>\<open>recommendations\<close> holds the value last given to the setter\<close>
  "setRecommendations v st = st\<lparr>recommendations := v\<rparr>"

definition catalog_request :: "string \<Rightarrow> main_app \<Rightarrow> recommendations_request" where
  \<comment> \<open>the request of \<open>fetchMusicRecommendations\<close>: the limit is the constant 6\<close>
  "catalog_request emotion st = getRecommendations (toLowerCase emotion) (language st) 6"

definition fetchMusicRecommendations ::
  "(recommendations_request \<Rightarrow> recommendations_response outcome) \<Rightarrow> string \<Rightarrow> main_app \<Rightarrow> main_app" where
  "fetchMusicRecommendations backend emotion st =
     (let st1 = st\<lparr>loadingMusic := True\<rparr>;
          st2 =
            (case backend (catalog_request emotion st) of
               Resolved (Some response) \<Rightarrow>
                 (case tracks response of
                    Some ts \<Rightarrow>
                      if rec_success response then setRecommendations (Value ts) st1
                      else setRecommendations (getDummyRecommendations emotion) st1
                  | None \<Rightarrow> setRecommendations (getDummyRecommendations emotion) st1)
             | Resolved None \<Rightarrow> setRecommendations (getDummyRecommendations emotion) st1
             | Rejected m \<Rightarrow> setRecommendations (getDummyRecommendations emotion) st1)
      in st2\<lparr>loadingMusic := False\<rparr>)"

definition uses_catalog :: "recommendations_response outcome \<Rightarrow> bool" where
  \<comment> \<open>the case in which \<open>fetchMusicRecommendations\<close> shows the tracks of the response:
      the call returned and \<open>response.success && response.tracks\<close> is truthy\<close>
  "uses_catalog out =
     (case out of
        Resolved (Some response) \<Rightarrow> rec_success response \<and> tracks response \<noteq> None
      | _ \<Rightarrow> False)"

text \<open>Three backends and the first state of the component, for the examples below.\<close>

definition unreachable_catalog :: "recommendations_request \<Rightarrow> recommendations_response outcome" where
  "unreachable_catalog request = Rejected None"

definition empty_catalog :: "recommendations_request \<Rightarrow> recommendations_response outcome" where
  "empty_catalog request = Resolved (Some \<lparr>rec_success = True, tracks = Some []\<rparr>)"


definition initial_main_app :: main_app where
  "initial_main_app = \<lparr>recommendations = Value [], language = ''english'', loadingMusic = False\<rparr>"

section \<open>schema.sql\<close>



































section \<open>The handler of the like request\<close>








section \<open>LoginPage.jsx: the steps of the password reset\<close>













section \<open>The reset code authority\<close>






section \<open>Properties of RegisterPage.jsx\<close>

lemma indexOf_from_absent: "x \<notin> set xs \<Longrightarrow> indexOf_from xs x i = - 1"
  by (induction xs arbitrary: i) auto

lemma indexOf_from_present:
  "x \<in> set xs \<Longrightarrow> 0 \<le> i \<Longrightarrow>
     i \<le> indexOf_from xs x i \<and> indexOf_from xs x i < i + int (length xs) \<and>
     take (nat (indexOf_from xs x i - i)) xs @ drop (nat (indexOf_from xs x i - i) + 1) xs
       = remove1 x xs"
proof (induction xs arbitrary: i)
  case Nil
  then show ?case by simp
next
  case (Cons y ys)
  show ?case
  proof (cases "y = x")
    case True
    then show ?thesis by simp
  next
    case False
    with Cons.prems have mem: "x \<in> set ys" by simp
    have pos: "0 \<le> i + 1" using Cons.prems by simp
    from Cons.IH [OF mem pos]
    have a: "i + 1 \<le> indexOf_from ys x (i + 1)"
      and b: "indexOf_from ys x (i + 1) < i + 1 + int (length ys)"
      and c: "take (nat (indexOf_from ys x (i + 1) - (i + 1))) ys
                @ drop (nat (indexOf_from ys x (i + 1) - (i + 1)) + 1) ys = remove1 x ys"
      by simp_all
    have d: "nat (indexOf_from ys x (i + 1) - i) = Suc (nat (indexOf_from ys x (i + 1) - (i + 1)))"
      using a by simp
    show ?thesis using False a b c d by simp
  qed
qed

lemma indexOf_absent: "x \<notin> set xs \<Longrightarrow> indexOf xs x = - 1"
  by (simp add: indexOf_def indexOf_from_absent)

lemma indexOf_present: "x \<in> set xs \<Longrightarrow> indexOf xs x > - 1"
  using indexOf_from_present [of x xs 0] by (simp add: indexOf_def)

lemma splice_indexOf: "x \<in> set xs \<Longrightarrow> splice xs (indexOf xs x) 1 = remove1 x xs"
  using indexOf_from_present [of x xs 0] by (simp add: indexOf_def splice_def Let_def min_def)

lemma toggle_genres:
  "preferred_genres (formData (handleGenreToggle g st)) =
     (if g \<in> set (preferred_genres (formData st))
      then remove1 g (preferred_genres (formData st))
      else preferred_genres (formData st) @ [g])"
proof (cases "g \<in> set (preferred_genres (formData st))")
  case True
  then show ?thesis
    using indexOf_present [of g "preferred_genres (formData st)"]
      splice_indexOf [of g "preferred_genres (formData st)"]
    by (simp add: handleGenreToggle_def Let_def)
next
  case False
  then show ?thesis
    by (simp add: handleGenreToggle_def Let_def indexOf_absent)
qed

lemma toggle_distinct:
  "distinct (preferred_genres (formData st)) \<Longrightarrow>
     distinct (preferred_genres (formData (handleGenreToggle g st)))"
  by (simp add: toggle_genres)

lemma toggles_distinct:
  "distinct (preferred_genres (formData st)) \<Longrightarrow>
     distinct (preferred_genres (formData (fold handleGenreToggle gs st)))"
  by (induction gs arbitrary: st) (simp_all add: toggle_distinct)


text \<open>
  C9. The genre selection of the registration form stays free of duplicates: every
  state reached from the empty form by toggling genres has a duplicate-free
  \<open>preferred_genres\<close>, and a toggle keeps a duplicate-free list duplicate-free. On
  such a list, toggling an absent genre appends it, so that it occurs exactly once;
  toggling a present genre removes its one occurrence; and toggling the same genre
  twice gives back the same set of genres: the same list when the genre was absent,
  the list with the genre moved to the end when it was present. No other field of
  the form changes.
\<close>

theorem handleGenreToggle_set_involution:
  "distinct (preferred_genres (formData
      (fold handleGenreToggle gs \<lparr>formData = initial_formData, loading = False, error = []\<rparr>))) \<and>
   (distinct (preferred_genres (formData st)) \<longrightarrow>
      distinct (preferred_genres (formData (handleGenreToggle g st))) \<and>
      (g \<notin> set (preferred_genres (formData st)) \<longrightarrow>
         preferred_genres (formData (handleGenreToggle g st)) = preferred_genres (formData st) @ [g] \<and>
         count_list (preferred_genres (formData (handleGenreToggle g st))) g = 1 \<and>
         preferred_genres (formData (handleGenreToggle g (handleGenreToggle g st)))
           = preferred_genres (formData st)) \<and>
      (g \<in> set (preferred_genres (formData st)) \<longrightarrow>
         preferred_genres (formData (handleGenreToggle g st)) = remove1 g (preferred_genres (formData st)) \<and>
         g \<notin> set (preferred_genres (formData (handleGenreToggle g st))) \<and>
         Suc (length (preferred_genres (formData (handleGenreToggle g st))))
           = length (preferred_genres (formData st)) \<and>
         preferred_genres (formData (handleGenreToggle g (handleGenreToggle g st)))
           = remove1 g (preferred_genres (formData st)) @ [g]) \<and>
      set (preferred_genres (formData (handleGenreToggle g (handleGenreToggle g st))))
        = set (preferred_genres (formData st)) \<and>
      handleGenreToggle g st
        = st\<lparr>formData := (formData st)\<lparr>preferred_genres :=
              preferred_genres (formData (handleGenreToggle g st))\<rparr>\<rparr>)"
proof (intro conjI impI)
  show "distinct (preferred_genres (formData
      (fold handleGenreToggle gs \<lparr>formData = initial_formData, loading = False, error = []\<rparr>)))"
    by (rule toggles_distinct) (simp add: initial_formData_def)
next
  assume "distinct (preferred_genres (formData st))"
  then show "distinct (preferred_genres (formData (handleGenreToggle g st)))"
    by (rule toggle_distinct)
next
  assume "g \<notin> set (preferred_genres (formData st))"
  then show "preferred_genres (formData (handleGenreToggle g st)) = preferred_genres (formData st) @ [g]"
    by (simp add: toggle_genres)
next
  assume "g \<notin> set (preferred_genres (formData st))"
  then show "count_list (preferred_genres (formData (handleGenreToggle g st))) g = 1"
    by (simp add: toggle_genres count_list_0_iff)
next
  assume "g \<notin> set (preferred_genres (formData st))"
  then show "preferred_genres (formData (handleGenreToggle g (handleGenreToggle g st)))
           = preferred_genres (formData st)"
    by (simp add: toggle_genres remove1_append)
next
  assume "g \<in> set (preferred_genres (formData st))"
  then show "preferred_genres (formData (handleGenreToggle g st)) = remove1 g (preferred_genres (formData st))"
    by (simp add: toggle_genres)
next
  assume "distinct (preferred_genres (formData st))" "g \<in> set (preferred_genres (formData st))"
  then show "g \<notin> set (preferred_genres (formData (handleGenreToggle g st)))"
    by (simp add: toggle_genres)
next
  assume "g \<in> set (preferred_genres (formData st))"
  then show "Suc (length (preferred_genres (formData (handleGenreToggle g st))))
           = length (preferred_genres (formData st))"
    by (simp add: toggle_genres length_remove1) (cases "preferred_genres (formData st)", auto)
next
  assume "distinct (preferred_genres (formData st))" "g \<in> set (preferred_genres (formData st))"
  then show "preferred_genres (formData (handleGenreToggle g (handleGenreToggle g st)))
           = remove1 g (preferred_genres (formData st)) @ [g]"
    by (simp add: toggle_genres)
next
  assume "distinct (preferred_genres (formData st))"
  then show "set (preferred_genres (formData (handleGenreToggle g (handleGenreToggle g st))))
        = set (preferred_genres (formData st))"
    by (auto simp add: toggle_genres remove1_append)
next
  show "handleGenreToggle g st
        = st\<lparr>formData := (formData st)\<lparr>preferred_genres :=
              preferred_genres (formData (handleGenreToggle g st))\<rparr>\<rparr>"
    by (simp add: handleGenreToggle_def Let_def)
qed

theorem handleGenreToggle_set_involution_witness:
  "distinct [''Pop'', ''Rock''] \<and>
   ''Rock'' \<in> set [''Pop'', ''Rock''] \<and>
   ''Jazz'' \<notin> set [''Pop'', ''Rock''] \<and>
   preferred_genres (formData (handleGenreToggle ''Rock''
      \<lparr>formData = initial_formData\<lparr>preferred_genres := [''Pop'', ''Rock'']\<rparr>,
       loading = False, error = []\<rparr>)) = [''Pop''] \<and>
   preferred_genres (formData (handleGenreToggle ''Jazz''
      \<lparr>formData = initial_formData\<lparr>preferred_genres := [''Pop'', ''Rock'']\<rparr>,
       loading = False, error = []\<rparr>)) = [''Pop'', ''Rock'', ''Jazz''] \<and>
   set (preferred_genres (formData (handleGenreToggle ''Rock'' (handleGenreToggle ''Rock''
      \<lparr>formData = initial_formData\<lparr>preferred_genres := [''Pop'', ''Rock'']\<rparr>,
       loading = False, error = []\<rparr>)))) = {''Pop'', ''Rock''}"
  using handleGenreToggle_set_involution
    [of "[]" "\<lparr>formData = initial_formData\<lparr>preferred_genres := [''Pop'', ''Rock'']\<rparr>,
              loading = False, error = []\<rparr>" "''Rock''"]
    handleGenreToggle_set_involution
    [of "[]" "\<lparr>formData = initial_formData\<lparr>preferred_genres := [''Pop'', ''Rock'']\<rparr>,
              loading = False, error = []\<rparr>" "''Jazz''"]
  by (simp add: initial_formData_def insert_commute)

text \<open>
  C10. The submit handler of the registration form sends the register request
  exactly when the three checks pass: the password equals its confirmation, it has
  at least 8 characters, and at least one genre is selected. When a check fails,
  nothing is sent, the browser is untouched, and the page is the page it was with
  only \<open>error\<close> replaced by the message of the first failing check. When all pass,
  exactly one request is sent, carrying the name, the email, the password and the
  genres joined by a comma and a space.
\<close>

theorem handleSubmit_sends_only_when_valid:
  "(snd (snd (handleSubmit outcome st b)) \<noteq> [] \<longleftrightarrow>
      password (formData st) = confirmPassword (formData st) \<and>
      8 \<le> length (password (formData st)) \<and>
      preferred_genres (formData st) \<noteq> []) \<and>
   (password (formData st) \<noteq> confirmPassword (formData st) \<longrightarrow>
      handleSubmit outcome st b = (st\<lparr>error := ''Passwords do not match''\<rparr>, b, [])) \<and>
   (password (formData st) = confirmPassword (formData st) \<and>
    length (password (formData st)) < 8 \<longrightarrow>
      handleSubmit outcome st b
        = (st\<lparr>error := ''Password must be at least 8 characters long''\<rparr>, b, [])) \<and>
   (password (formData st) = confirmPassword (formData st) \<and>
    8 \<le> length (password (formData st)) \<and> preferred_genres (formData st) = [] \<longrightarrow>
      handleSubmit outcome st b
        = (st\<lparr>error := ''Please select at least one music genre''\<rparr>, b, [])) \<and>
   (password (formData st) = confirmPassword (formData st) \<and>
    8 \<le> length (password (formData st)) \<and> preferred_genres (formData st) \<noteq> [] \<longrightarrow>
      snd (snd (handleSubmit outcome st b))
        = [\<lparr>req_name = name (formData st), req_email = email (formData st),
            req_password = password (formData st),
            req_preferred_genres = join '', '' (preferred_genres (formData st))\<rparr>])"
proof (cases "password (formData st) = confirmPassword (formData st)")
  case False
  then show ?thesis by (simp add: handleSubmit_def Let_def)
next
  case same: True
  show ?thesis
  proof (cases "length (password (formData st)) < 8")
    case True
    with same show ?thesis by (simp add: handleSubmit_def Let_def)
  next
    case long: False
    show ?thesis
    proof (cases "preferred_genres (formData st) = []")
      case True
      with same long show ?thesis by (simp add: handleSubmit_def Let_def)
    next
      case False
      with same long show ?thesis
        by (simp add: handleSubmit_def Let_def split: prod.splits)
    qed
  qed
qed

theorem handleSubmit_sends_only_when_valid_witness:
  "handleSubmit (Rejected None)
      \<lparr>formData = \<lparr>name = ''Ann'', email = ''a@x.com'', password = ''longenough'',
                   confirmPassword = ''longenougj'', preferred_genres = [''Pop'']\<rparr>,
       loading = False, error = ''old''\<rparr>
      (\<lparr>localStorage = Map.empty, location_href = ''/register'', scheduled = []\<rparr>)
     = (\<lparr>formData = \<lparr>name = ''Ann'', email = ''a@x.com'', password = ''longenough'',
                   confirmPassword = ''longenougj'', preferred_genres = [''Pop'']\<rparr>,
         loading = False, error = ''Passwords do not match''\<rparr>,
        \<lparr>localStorage = Map.empty, location_href = ''/register'', scheduled = []\<rparr>, []) \<and>
   handleSubmit (Rejected None)
      \<lparr>formData = \<lparr>name = ''Ann'', email = ''a@x.com'', password = ''short'',
                   confirmPassword = ''short'', preferred_genres = [''Pop'']\<rparr>,
       loading = False, error = ''old''\<rparr>
      (\<lparr>localStorage = Map.empty, location_href = ''/register'', scheduled = []\<rparr>)
     = (\<lparr>formData = \<lparr>name = ''Ann'', email = ''a@x.com'', password = ''short'',
                   confirmPassword = ''short'', preferred_genres = [''Pop'']\<rparr>,
         loading = False, error = ''Password must be at least 8 characters long''\<rparr>,
        \<lparr>localStorage = Map.empty, location_href = ''/register'', scheduled = []\<rparr>, []) \<and>
   handleSubmit (Rejected None)
      \<lparr>formData = \<lparr>name = ''Ann'', email = ''a@x.com'', password = ''longenough'',
                   confirmPassword = ''longenough'', preferred_genres = []\<rparr>,
       loading = False, error = ''old''\<rparr>
      (\<lparr>localStorage = Map.empty, location_href = ''/register'', scheduled = []\<rparr>)
     = (\<lparr>formData = \<lparr>name = ''Ann'', email = ''a@x.com'', password = ''longenough'',
                   confirmPassword = ''longenough'', preferred_genres = []\<rparr>,
         loading = False, error = ''Please select at least one music genre''\<rparr>,
        \<lparr>localStorage = Map.empty, location_href = ''/register'', scheduled = []\<rparr>, []) \<and>
   snd (snd (handleSubmit (Rejected None)
      \<lparr>formData = \<lparr>name = ''Ann'', email = ''a@x.com'', password = ''longenough'',
                   confirmPassword = ''longenough'', preferred_genres = [''Pop'', ''Jazz'']\<rparr>,
       loading = False, error = ''old''\<rparr> (\<lparr>localStorage = Map.empty, location_href = ''/register'', scheduled = []\<rparr>)))
     = [\<lparr>req_name = ''Ann'', req_email = ''a@x.com'', req_password = ''longenough'',
         req_preferred_genres = ''Pop, Jazz''\<rparr>]"
  using handleSubmit_sends_only_when_valid
    [of "Rejected None" "\<lparr>formData = \<lparr>name = ''Ann'', email = ''a@x.com'', password = ''longenough'',
                   confirmPassword = ''longenougj'', preferred_genres = [''Pop'']\<rparr>,
       loading = False, error = ''old''\<rparr>"
       "\<lparr>localStorage = Map.empty, location_href = ''/register'', scheduled = []\<rparr>"]
    handleSubmit_sends_only_when_valid
    [of "Rejected None" "\<lparr>formData = \<lparr>name = ''Ann'', email = ''a@x.com'', password = ''short'',
                   confirmPassword = ''short'', preferred_genres = [''Pop'']\<rparr>,
       loading = False, error = ''old''\<rparr>"
       "\<lparr>localStorage = Map.empty, location_href = ''/register'', scheduled = []\<rparr>"]
    handleSubmit_sends_only_when_valid
    [of "Rejected None" "\<lparr>formData = \<lparr>name = ''Ann'', email = ''a@x.com'', password = ''longenough'',
                   confirmPassword = ''longenough'', preferred_genres = []\<rparr>,
       loading = False, error = ''old''\<rparr>"
       "\<lparr>localStorage = Map.empty, location_href = ''/register'', scheduled = []\<rparr>"]
    handleSubmit_sends_only_when_valid
    [of "Rejected None" "\<lparr>formData = \<lparr>name = ''Ann'', email = ''a@x.com'', password = ''longenough'',
                   confirmPassword = ''longenough'', preferred_genres = [''Pop'', ''Jazz'']\<rparr>,
       loading = False, error = ''old''\<rparr>"
       "\<lparr>localStorage = Map.empty, location_href = ''/register'', scheduled = []\<rparr>"]
  by simp

section \<open>Properties of MainApp.jsx\<close>

lemma toLowerChar_not_capital: "\<not> is_capital (toLowerChar c)"
proof -
  define n where "n = (of_char c :: nat)"
  have lt: "n < 256" unfolding n_def by simp
  show ?thesis
  proof (cases "(65 \<le> n \<and> n \<le> 90) \<or> (192 \<le> n \<and> n \<le> 222 \<and> n \<noteq> 215)")
    case True
    then have low: "toLowerChar c = char_of (n + 32)"
      by (simp add: toLowerChar_def n_def Let_def)
    have "(of_char (char_of (n + 32)) :: nat) = (n + 32) mod 256"
      by (rule of_char_of)
    also have "(n + 32) mod 256 = n + 32"
      using True by (intro mod_less) arith
    finally have "(of_char (toLowerChar c) :: nat) = n + 32"
      by (simp only: low)
    moreover have "\<not> (65 \<le> n + 32 \<and> n + 32 \<le> 90)"
      using True by arith
    ultimately show ?thesis by (simp add: is_capital_def)
  next
    case False
    then have "toLowerChar c = c"
      unfolding toLowerChar_def Let_def n_def by (rule if_not_P)
    then show ?thesis using False by (auto simp add: is_capital_def n_def)
  qed
qed

lemma toLowerCase_no_capital: "c \<in> set (toLowerCase s) \<Longrightarrow> \<not> is_capital c"
  using toLowerChar_not_capital by (auto simp: toLowerCase_def)

lemma capitals:
  "is_capital CHR ''G''" "is_capital CHR ''S''" "is_capital CHR ''O''" "is_capital CHR ''P''"
  "is_capital CHR ''E''" "is_capital CHR ''V''" "is_capital CHR ''L''"
  by (simp_all add: is_capital_def)

lemma lowered_inherited:
  "toLowerCase e \<in> set object_prototype_names \<longleftrightarrow>
     toLowerCase e = ''constructor'' \<or> toLowerCase e = ''__proto__''"
proof
  assume "toLowerCase e \<in> set object_prototype_names"
  then consider "toLowerCase e = ''constructor''" | "toLowerCase e = ''__proto__''"
    | "CHR ''G'' \<in> set (toLowerCase e)" | "CHR ''S'' \<in> set (toLowerCase e)"
    | "CHR ''O'' \<in> set (toLowerCase e)" | "CHR ''P'' \<in> set (toLowerCase e)"
    | "CHR ''E'' \<in> set (toLowerCase e)" | "CHR ''V'' \<in> set (toLowerCase e)"
    | "CHR ''L'' \<in> set (toLowerCase e)"
    unfolding object_prototype_names_def by fastforce
  then show "toLowerCase e = ''constructor'' \<or> toLowerCase e = ''__proto__''"
    using toLowerCase_no_capital [of _ e] capitals by cases blast+
next
  assume "toLowerCase e = ''constructor'' \<or> toLowerCase e = ''__proto__''"
  then show "toLowerCase e \<in> set object_prototype_names"
    unfolding object_prototype_names_def by auto
qed

lemma getDummyRecommendations_cases:
  "getDummyRecommendations e =
     (if toLowerCase e = ''happy'' then Value happy_tracks
      else if toLowerCase e = ''sad'' then Value sad_tracks
      else if toLowerCase e = ''angry'' then Value angry_tracks
      else if toLowerCase e = ''constructor'' \<or> toLowerCase e = ''__proto__''
      then Inherited (toLowerCase e)
      else Value neutral_tracks)"
proof -
  have m: "''constructor'' \<in> set object_prototype_names" "''__proto__'' \<in> set object_prototype_names"
    by (simp_all add: object_prototype_names_def)
  show ?thesis
    using lowered_inherited [of e] m
    by (simp add: getDummyRecommendations_def object_get_def dummyData_def)
qed

lemma tracks_six:
  "length happy_tracks = 6" "length sad_tracks = 6" "length angry_tracks = 6"
  "length neutral_tracks = 6"
  by (simp_all add: happy_tracks_def sad_tracks_def angry_tracks_def neutral_tracks_def)

lemma tracks_fields:
  "t \<in> set happy_tracks \<or> t \<in> set sad_tracks \<or> t \<in> set angry_tracks \<or> t \<in> set neutral_tracks
     \<Longrightarrow> title t \<noteq> [] \<and> artist t \<noteq> [] \<and> track_id t = None \<and> preview_url t = None"
  by (auto simp add: happy_tracks_def sad_tracks_def angry_tracks_def neutral_tracks_def dummy_def)

lemma fetch_fallback:
  "\<not> uses_catalog (backend (catalog_request e st)) \<Longrightarrow>
     fetchMusicRecommendations backend e st
       = st\<lparr>recommendations := getDummyRecommendations e, loadingMusic := False\<rparr>"
  by (auto simp: fetchMusicRecommendations_def uses_catalog_def setRecommendations_def Let_def
      split: outcome.splits option.splits)

lemma fetch_catalog:
  "backend (catalog_request e st) = Resolved (Some response) \<Longrightarrow> rec_success response \<Longrightarrow>
   tracks response = Some ts \<Longrightarrow>
     fetchMusicRecommendations backend e st
       = st\<lparr>recommendations := Value ts, loadingMusic := False\<rparr>"
  by (auto simp: fetchMusicRecommendations_def uses_catalog_def setRecommendations_def Let_def
      split: outcome.splits option.splits)

lemma lower_examples:
  "toLowerCase ''happy'' = ''happy''" "toLowerCase ''Happy'' = ''happy''"
  "toLowerCase ''HAPPY'' = ''happy''" "toLowerCase ''fear'' = ''fear''"
  "toLowerCase ''Surprised'' = ''surprised''" "toLowerCase ''Fearful'' = ''fearful''"
  "toLowerCase ''disgusted'' = ''disgusted''"
  by code_simp+

text \<open>
  C2, as stated, fails: a catalog that answers with \<open>success\<close> and an empty
  \<open>tracks\<close> array is taken at its word, since an empty array is truthy, and the
  component shows no track at all instead of the six of the fallback table.
\<close>

theorem fetch_empty_result_counterexample:
  "empty_catalog (catalog_request ''happy'' initial_main_app)
     = Resolved (Some \<lparr>rec_success = True, tracks = Some []\<rparr>) \<and>
   recommendations (fetchMusicRecommendations empty_catalog ''happy'' initial_main_app) = Value [] \<and>
   getDummyRecommendations ''happy'' = Value happy_tracks \<and>
   recommendations (fetchMusicRecommendations empty_catalog ''happy'' initial_main_app)
     \<noteq> getDummyRecommendations ''happy''"
proof -
  have a: "empty_catalog (catalog_request ''happy'' initial_main_app)
     = Resolved (Some \<lparr>rec_success = True, tracks = Some []\<rparr>)"
    by (simp add: empty_catalog_def)
  have b: "recommendations (fetchMusicRecommendations empty_catalog ''happy'' initial_main_app) = Value []"
    using fetch_catalog [of empty_catalog "''happy''" initial_main_app, OF a] by simp
  have c: "getDummyRecommendations ''happy'' = Value happy_tracks"
    by (simp add: getDummyRecommendations_cases lower_examples)
  have d: "happy_tracks \<noteq> []" using tracks_six(1) by auto
  show ?thesis using a b c d by simp
qed

text \<open>
  C2, amended. For every emotion label whose lower-case form is not the name of an
  inherited property (\<open>constructor\<close>, \<open>__proto__\<close>): when the call for the
  recommendations throws (the catalog is unreachable, the status is not 2xx, the body
  is \<open>null\<close>) or the body lacks a true \<open>success\<close> or a \<open>tracks\<close> property, the
  component does not fail; it shows the table of the fallback for the lower-case
  label, the \<open>neutral\<close> one when the label has no table. The request always asks
  for 6 tracks and every table has exactly 6 entries, each with a non-empty title
  and artist and without id and preview: nothing is truncated or padded. When the
  body has a true \<open>success\<close> and a \<open>tracks\<close> array, that array is shown as it is,
  empty or not.
\<close>

theorem fetch_fallback_when_catalog_fails:
  assumes "\<not> uses_catalog (backend (catalog_request emotion st))"
    and "toLowerCase emotion \<noteq> ''constructor''"
    and "toLowerCase emotion \<noteq> ''__proto__''"
  shows "\<exists>ts. fetchMusicRecommendations backend emotion st
              = st\<lparr>recommendations := Value ts, loadingMusic := False\<rparr> \<and>
            ts = (if toLowerCase emotion = ''happy'' then happy_tracks
                  else if toLowerCase emotion = ''sad'' then sad_tracks
                  else if toLowerCase emotion = ''angry'' then angry_tracks
                  else neutral_tracks) \<and>
            length ts = 6 \<and>
            (\<forall>t \<in> set ts. title t \<noteq> [] \<and> artist t \<noteq> [] \<and> track_id t = None \<and> preview_url t = None) \<and>
            param_limit (catalog_request emotion st) = 6 \<and>
            (\<forall>response ts'. backend' (catalog_request emotion st) = Resolved (Some response) \<and>
                 rec_success response \<and> tracks response = Some ts' \<longrightarrow>
               fetchMusicRecommendations backend' emotion st
                 = st\<lparr>recommendations := Value ts', loadingMusic := False\<rparr>)"
proof -
  let ?ts = "if toLowerCase emotion = ''happy'' then happy_tracks
             else if toLowerCase emotion = ''sad'' then sad_tracks
             else if toLowerCase emotion = ''angry'' then angry_tracks
             else neutral_tracks"
  have "getDummyRecommendations emotion = Value ?ts"
    using assms(2,3) by (simp add: getDummyRecommendations_cases)
  then have a: "fetchMusicRecommendations backend emotion st
              = st\<lparr>recommendations := Value ?ts, loadingMusic := False\<rparr>"
    using fetch_fallback [of backend emotion st] assms(1) by simp
  have b: "length ?ts = 6"
    by (simp add: tracks_six)
  have c: "\<forall>t \<in> set ?ts. title t \<noteq> [] \<and> artist t \<noteq> [] \<and> track_id t = None \<and> preview_url t = None"
    using tracks_fields by (auto split: if_splits)
  have d: "param_limit (catalog_request emotion st) = 6"
    by (simp add: catalog_request_def getRecommendations_def)
  have e: "\<forall>response ts'. backend' (catalog_request emotion st) = Resolved (Some response) \<and>
                 rec_success response \<and> tracks response = Some ts' \<longrightarrow>
               fetchMusicRecommendations backend' emotion st
                 = st\<lparr>recommendations := Value ts', loadingMusic := False\<rparr>"
    using fetch_catalog [of backend' emotion st] by blast
  from a b c d e show ?thesis by blast
qed

theorem fetch_fallback_when_catalog_fails_witness:
  "\<not> uses_catalog (unreachable_catalog (catalog_request ''happy'' initial_main_app)) \<and>
   toLowerCase ''happy'' \<noteq> ''constructor'' \<and> toLowerCase ''happy'' \<noteq> ''__proto__'' \<and>
   fetchMusicRecommendations unreachable_catalog ''happy'' initial_main_app
     = initial_main_app\<lparr>recommendations := Value happy_tracks, loadingMusic := False\<rparr> \<and>
   length happy_tracks = 6 \<and>
   param_language (catalog_request ''happy'' initial_main_app) = ''english''"
proof -
  have h1: "\<not> uses_catalog (unreachable_catalog (catalog_request ''happy'' initial_main_app))"
    by (simp add: uses_catalog_def unreachable_catalog_def)
  have h2: "toLowerCase ''happy'' \<noteq> ''constructor''" "toLowerCase ''happy'' \<noteq> ''__proto__''"
    by (simp_all add: lower_examples)
  have l: "param_language (catalog_request ''happy'' initial_main_app) = ''english''"
    by (simp add: catalog_request_def getRecommendations_def initial_main_app_def)
  show ?thesis
    using fetch_fallback_when_catalog_fails
      [of unreachable_catalog "''happy''" initial_main_app unreachable_catalog, OF h1 h2] h1 h2 l
    by (auto simp add: lower_examples)
qed

text \<open>
  C3, as stated, fails: the label \<open>fear\<close> is not mapped to \<open>fearful\<close>. The
  component asks the catalog for \<open>fear\<close>.
\<close>

theorem synonym_not_normalized_counterexample:
  "url (catalog_request ''fear'' initial_main_app) = ''/music/recommendations/fear'' \<and>
   url (catalog_request ''fear'' initial_main_app) \<noteq> ''/music/recommendations/fearful''"
  by (simp add: catalog_request_def getRecommendations_def lower_examples)

text \<open>
  C3, amended. The component only puts the emotion label into lower case: the
  request names the lower-case label, with the language of the component and the
  limit 6, and no synonym is mapped. The synonyms \<open>fear\<close>, \<open>disgust\<close> and
  \<open>surprise\<close> appear in the table of emoji only, where each has the emoji of
  \<open>fearful\<close>, \<open>disgusted\<close> and \<open>surprised\<close>. The fallback has a table for
  \<open>happy\<close>, \<open>sad\<close>, \<open>angry\<close> and \<open>neutral\<close>; every other label, \<open>surprised\<close>,
  \<open>fearful\<close> and \<open>disgusted\<close> among them, receives the \<open>neutral\<close> table, the
  labels \<open>constructor\<close> and \<open>__proto__\<close> excepted, which name inherited properties.
\<close>

theorem emotion_label_lowercased_only:
  "catalog_request emotion st
     = \<lparr>url = ''/music/recommendations/'' @ toLowerCase emotion,
        param_language = language st, param_limit = 6\<rparr> \<and>
   object_get emotionEmojis ''fear'' = object_get emotionEmojis ''fearful'' \<and>
   object_get emotionEmojis ''disgust'' = object_get emotionEmojis ''disgusted'' \<and>
   object_get emotionEmojis ''surprise'' = object_get emotionEmojis ''surprised'' \<and>
   (toLowerCase emotion = ''happy'' \<longrightarrow> getDummyRecommendations emotion = Value happy_tracks) \<and>
   (toLowerCase emotion = ''sad'' \<longrightarrow> getDummyRecommendations emotion = Value sad_tracks) \<and>
   (toLowerCase emotion = ''angry'' \<longrightarrow> getDummyRecommendations emotion = Value angry_tracks) \<and>
   (toLowerCase emotion \<notin> {''happy'', ''sad'', ''angry'', ''constructor'', ''__proto__''} \<longrightarrow>
      getDummyRecommendations emotion = Value neutral_tracks)"
proof -
  have a: "catalog_request emotion st
     = \<lparr>url = ''/music/recommendations/'' @ toLowerCase emotion,
        param_language = language st, param_limit = 6\<rparr>"
    by (simp add: catalog_request_def getRecommendations_def)
  have b: "object_get emotionEmojis ''fear'' = object_get emotionEmojis ''fearful''"
    "object_get emotionEmojis ''disgust'' = object_get emotionEmojis ''disgusted''"
    "object_get emotionEmojis ''surprise'' = object_get emotionEmojis ''surprised''"
    by (simp_all add: object_get_def emotionEmojis_def)
  have c: "toLowerCase emotion = ''happy'' \<longrightarrow> getDummyRecommendations emotion = Value happy_tracks"
    "toLowerCase emotion = ''sad'' \<longrightarrow> getDummyRecommendations emotion = Value sad_tracks"
    "toLowerCase emotion = ''angry'' \<longrightarrow> getDummyRecommendations emotion = Value angry_tracks"
    by (simp_all add: getDummyRecommendations_cases)
  have d: "toLowerCase emotion \<notin> {''happy'', ''sad'', ''angry'', ''constructor'', ''__proto__''} \<longrightarrow>
      getDummyRecommendations emotion = Value neutral_tracks"
    by (simp add: getDummyRecommendations_cases)
  show ?thesis using a b c d by blast
qed

theorem emotion_label_lowercased_only_witness:
  "toLowerCase ''Surprised'' \<notin> {''happy'', ''sad'', ''angry'', ''constructor'', ''__proto__''} \<and>
   getDummyRecommendations ''Surprised'' = Value neutral_tracks \<and>
   toLowerCase ''Fearful'' \<notin> {''happy'', ''sad'', ''angry'', ''constructor'', ''__proto__''} \<and>
   getDummyRecommendations ''Fearful'' = Value neutral_tracks \<and>
   toLowerCase ''HAPPY'' = ''happy'' \<and>
   getDummyRecommendations ''HAPPY'' = Value happy_tracks \<and>
   url (catalog_request ''Surprised'' initial_main_app) = ''/music/recommendations/surprised''"
  using emotion_label_lowercased_only [of "''Surprised''" initial_main_app]
    emotion_label_lowercased_only [of "''Fearful''" initial_main_app]
    emotion_label_lowercased_only [of "''HAPPY''" initial_main_app]
  by (simp add: lower_examples)



section \<open>Properties of api.js\<close>

text \<open>
  C6. For every response that the instance \<open>api\<close> receives with status 401, the
  interceptor removes \<open>access_token\<close> and \<open>user\<close> from the local storage, leaves
  every other key as it was, sends the window to \<open>/login\<close>, and rejects with the
  error that carries the response. A response with any other status, and a failure
  without a response, leave the browser as it was: the stored session is untouched.
\<close>

theorem unauthorized_tears_down_session:
  "(status r = 401 \<longrightarrow>
      api_receive (Response r) b
        = (RejectedWith \<lparr>err_response = Some r\<rparr>,
           b\<lparr>localStorage := (localStorage b)(''access_token'' := None, ''user'' := None),
             location_href := ''/login''\<rparr>) \<and>
      localStorage (snd (api_receive (Response r) b)) ''access_token'' = None \<and>
      localStorage (snd (api_receive (Response r) b)) ''user'' = None \<and>
      (\<forall>k. k \<noteq> ''access_token'' \<and> k \<noteq> ''user'' \<longrightarrow>
         localStorage (snd (api_receive (Response r) b)) k = localStorage b k) \<and>
      location_href (snd (api_receive (Response r) b)) = ''/login'') \<and>
   (status r \<noteq> 401 \<longrightarrow>
      snd (api_receive (Response r) b) = b \<and>
      fst (api_receive (Response r) b)
        = (if 200 \<le> status r \<and> status r < 300 then Fulfilled r
           else RejectedWith \<lparr>err_response = Some r\<rparr>)) \<and>
   api_receive NoResponse b = (RejectedWith \<lparr>err_response = None\<rparr>, b)"
proof -
  have none: "api_receive NoResponse b = (RejectedWith \<lparr>err_response = None\<rparr>, b)"
    by (simp add: api_receive_def response_onRejected_def)
  show ?thesis
  proof (cases "status r = 401")
    case True
    then have "api_receive (Response r) b
        = (RejectedWith \<lparr>err_response = Some r\<rparr>,
           b\<lparr>localStorage := (localStorage b)(''access_token'' := None, ''user'' := None),
             location_href := ''/login''\<rparr>)"
      by (simp add: api_receive_def response_onRejected_def removeItem_def)
    with True none show ?thesis by simp
  next
    case False
    then have "api_receive (Response r) b
        = (if 200 \<le> status r \<and> status r < 300 then Fulfilled r
           else RejectedWith \<lparr>err_response = Some r\<rparr>, b)"
      by (simp add: api_receive_def response_onRejected_def response_onFulfilled_def)
    with False none show ?thesis by simp
  qed
qed

theorem unauthorized_tears_down_session_witness:
  "status \<lparr>status = 401, data = ''expired''\<rparr> = 401 \<and>
   status \<lparr>status = 404, data = ''missing''\<rparr> \<noteq> 401 \<and>
   localStorage (snd (api_receive (Response \<lparr>status = 401, data = ''expired''\<rparr>)
      \<lparr>localStorage = [''access_token'' \<mapsto> ''t'', ''user'' \<mapsto> ''u'', ''theme'' \<mapsto> ''dark''],
       location_href = ''/app'', scheduled = []\<rparr>)) ''access_token'' = None \<and>
   localStorage (snd (api_receive (Response \<lparr>status = 401, data = ''expired''\<rparr>)
      \<lparr>localStorage = [''access_token'' \<mapsto> ''t'', ''user'' \<mapsto> ''u'', ''theme'' \<mapsto> ''dark''],
       location_href = ''/app'', scheduled = []\<rparr>)) ''user'' = None \<and>
   localStorage (snd (api_receive (Response \<lparr>status = 401, data = ''expired''\<rparr>)
      \<lparr>localStorage = [''access_token'' \<mapsto> ''t'', ''user'' \<mapsto> ''u'', ''theme'' \<mapsto> ''dark''],
       location_href = ''/app'', scheduled = []\<rparr>)) ''theme'' = Some ''dark'' \<and>
   location_href (snd (api_receive (Response \<lparr>status = 401, data = ''expired''\<rparr>)
      \<lparr>localStorage = [''access_token'' \<mapsto> ''t'', ''user'' \<mapsto> ''u'', ''theme'' \<mapsto> ''dark''],
       location_href = ''/app'', scheduled = []\<rparr>)) = ''/login'' \<and>
   snd (api_receive (Response \<lparr>status = 404, data = ''missing''\<rparr>)
      \<lparr>localStorage = [''access_token'' \<mapsto> ''t'', ''user'' \<mapsto> ''u'', ''theme'' \<mapsto> ''dark''],
       location_href = ''/app'', scheduled = []\<rparr>)
     = \<lparr>localStorage = [''access_token'' \<mapsto> ''t'', ''user'' \<mapsto> ''u'', ''theme'' \<mapsto> ''dark''],
        location_href = ''/app'', scheduled = []\<rparr>"
  using unauthorized_tears_down_session
    [of "\<lparr>status = 401, data = ''expired''\<rparr>"
        "\<lparr>localStorage = [''access_token'' \<mapsto> ''t'', ''user'' \<mapsto> ''u'', ''theme'' \<mapsto> ''dark''],
          location_href = ''/app'', scheduled = []\<rparr>"]
    unauthorized_tears_down_session
    [of "\<lparr>status = 404, data = ''missing''\<rparr>"
        "\<lparr>localStorage = [''access_token'' \<mapsto> ''t'', ''user'' \<mapsto> ''u'', ''theme'' \<mapsto> ''dark''],
          location_href = ''/app'', scheduled = []\<rparr>"]
  by simp

section \<open>Properties of schema.sql\<close>



















section \<open>Properties of the like operation\<close>












section \<open>Properties of the password reset\<close>


















end
